theory Spec2Isabelle
  imports Main
begin

section \<open>The route handlers of autogenstudio/web/routes\<close>

text \<open>
  Two FastAPI route handlers are embedded here: \<^verbatim>\<open>invoke\<close> of
  \<^verbatim>\<open>web/routes/invoke.py\<close> and \<^verbatim>\<open>list_models\<close> of
  \<^verbatim>\<open>web/routes/models.py\<close>. Both are \<^verbatim>\<open>async def\<close> functions; a call
  is modelled as a function of the process state that gives the outcome and the state
  afterwards.
\<close>

subsection \<open>Python exceptions\<close>

text \<open>
  The class of a raised object. Python's built-in hierarchy has \<^verbatim>\<open>BaseException\<close> at
  the root; \<^verbatim>\<open>SystemExit\<close>, \<^verbatim>\<open>KeyboardInterrupt\<close>, \<^verbatim>\<open>GeneratorExit\<close> and
  \<^verbatim>\<open>asyncio.CancelledError\<close> derive from it directly, and so does \<^verbatim>\<open>Exception\<close>.
  \<open>Exception_subclass n\<close> stands for any class named \<open>n\<close> that derives from
  \<^verbatim>\<open>Exception\<close> (\<^verbatim>\<open>ValueError\<close>, \<^verbatim>\<open>RuntimeError\<close>, \<^verbatim>\<open>KeyError\<close>, ...).
\<close>

datatype exc_class =
    BaseException
  | SystemExit
  | KeyboardInterrupt
  | GeneratorExit
  | CancelledError
  | Exception
  | Exception_subclass string

text \<open>
  A raised object: its class, and what the call \<^verbatim>\<open>str(e)\<close> does with it. That call
  runs the object's own \<^verbatim>\<open>__str__\<close> method, which is code like any other: from
  process state \<open>s\<close> it never completes (\<open>None\<close>), raises (\<open>Some (Inl e', s')\<close>) or
  returns a string (\<open>Some (Inr m, s')\<close>), and \<open>s'\<close> is the state afterwards. A
  \<^verbatim>\<open>__str__\<close> that returns something other than a string makes \<^verbatim>\<open>str(e)\<close> raise
  \<^verbatim>\<open>TypeError\<close>, which is the raising case.
\<close>

datatype 's py_error =
  PyError (cls: exc_class) (str: "'s \<Rightarrow> (('s py_error + string) \<times> 's) option")

text \<open>\<^verbatim>\<open>isinstance(e, Exception)\<close>: what the clause \<^verbatim>\<open>except Exception as e\<close> matches.\<close>

definition isinstance_Exception :: "'s py_error \<Rightarrow> bool" where
  "isinstance_Exception e =
     (case cls e of
        Exception \<Rightarrow> True
      | Exception_subclass n \<Rightarrow> True
      | BaseException \<Rightarrow> False
      | SystemExit \<Rightarrow> False
      | KeyboardInterrupt \<Rightarrow> False
      | GeneratorExit \<Rightarrow> False
      | CancelledError \<Rightarrow> False)"

subsection \<open>Calls and coroutines\<close>

text \<open>
  A call or an awaited coroutine, run from process state \<open>s\<close>: \<open>None\<close> when it never
  completes, \<open>Some (Inl e, s')\<close> when it raises \<open>e\<close>, \<open>Some (Inr r, s')\<close> when it
  returns \<open>r\<close>; \<open>s'\<close> is the process state afterwards.
\<close>

type_synonym ('a, 's) coroutine = "'s \<Rightarrow> (('s py_error + 'a) \<times> 's) option"

text \<open>
  Two \<^verbatim>\<open>__str__\<close> methods to build raised objects with: the usual one, which returns
  the message \<open>m\<close>, and one that raises \<open>e\<close>. Both leave the process state as it is.
\<close>

definition str_returns :: "string \<Rightarrow> (string, 's) coroutine" where
  "str_returns m s = Some (Inr m, s)"

definition str_raises :: "'s py_error \<Rightarrow> (string, 's) coroutine" where
  "str_raises e s = Some (Inl e, s)"

subsection \<open>invoke.py\<close>

text \<open>
  \<^verbatim>\<open>class InvokeTaskRequest(BaseModel): task: str; team_config: dict\<close>.
  The configuration dictionary is only handed on to the team manager, so its type is a
  parameter.
\<close>

record 'cfg InvokeTaskRequest =
  task :: string
  team_config :: 'cfg

text \<open>
  Modelled from the spec: the class \<^verbatim>\<open>Response\<close> of \<^verbatim>\<open>autogenstudio.datamodel\<close>
  is declared outside the two source files. The specification gives the response
  envelope as \<^verbatim>\<open>{ message: string, status: boolean, data: optional arbitrary value }\<close>,
  which are the three fields the constructor call in \<^verbatim>\<open>invoke\<close> sets. A payload is
  a Python value that may be \<^verbatim>\<open>None\<close>: \<open>None\<close> here, and \<open>Some v\<close> for any other
  value \<open>v\<close>.
\<close>

record 'v Response =
  message :: string
  status :: bool
  data :: "'v option"

text \<open>
  The handler. \<^verbatim>\<open>team_manager\<close> is a module-level \<^verbatim>\<open>TeamManager()\<close> whose class
  is not part of the two files, so its method \<^verbatim>\<open>run\<close> is the parameter
  \<open>team_manager_run\<close>: a coroutine of the task and the configuration that returns a
  Python value (possibly \<^verbatim>\<open>None\<close>), raises, or never completes, and may change the
  process state.

  \<^verbatim>\<open>
  response = Response(message="Task successfully completed", status=True, data=None)
  try:
      result_message = await team_manager.run(task=request.task, team_config=request.team_config)
      response.data = result_message
  except Exception as e:
      response.message = str(e)
      response.status = False
  return response
  \<close>

  An object raised by \<^verbatim>\<open>run\<close> that the \<^verbatim>\<open>except\<close> clause does not match leaves the
  handler as it is. Inside the \<^verbatim>\<open>except\<close> block the call \<^verbatim>\<open>str(e)\<close> is not guarded:
  what it raises leaves the handler too, and the two assignments after it are not
  reached.
\<close>

definition invoke ::
  "(string \<Rightarrow> 'cfg \<Rightarrow> ('v option, 's) coroutine) \<Rightarrow> 'cfg InvokeTaskRequest \<Rightarrow>
     ('v Response, 's) coroutine" where
  "invoke team_manager_run request s =
     (let response = \<lparr>message = ''Task successfully completed'', status = True, data = None\<rparr> in
      case team_manager_run (task request) (team_config request) s of
        None \<Rightarrow> None
      | Some (Inr result_message, s') \<Rightarrow> Some (Inr (response\<lparr>data := result_message\<rparr>), s')
      | Some (Inl e, s') \<Rightarrow>
          if isinstance_Exception e
          then (case str e s' of
                  None \<Rightarrow> None
                | Some (Inl e', s'') \<Rightarrow> Some (Inl e', s'')
                | Some (Inr m, s'') \<Rightarrow>
                    Some (Inr (response\<lparr>message := m, status := False\<rparr>), s''))
          else Some (Inl e, s'))"

text \<open>
  Two team managers to run the handler on: one whose \<^verbatim>\<open>run\<close> returns the value \<open>r\<close>
  for every task and configuration, and one whose \<^verbatim>\<open>run\<close> raises \<open>e\<close>. Both leave
  the process state as it is.
\<close>

definition run_returns :: "'v option \<Rightarrow> string \<Rightarrow> 'cfg \<Rightarrow> ('v option, 's) coroutine" where
  "run_returns r t c s = Some (Inr r, s)"

definition run_raises :: "'s py_error \<Rightarrow> string \<Rightarrow> 'cfg \<Rightarrow> ('v option, 's) coroutine" where
  "run_raises e t c s = Some (Inl e, s)"

subsection \<open>models.py\<close>

text \<open>
  A Python \<^verbatim>\<open>dict\<close> keeps its keys in insertion order; it is an association list
  here. \<^verbatim>\<open>list(d.keys())\<close> is the list of its keys in that order.
\<close>

type_synonym ('k, 'v) dict = "('k \<times> 'v) list"

definition list_keys :: "('k, 'v) dict \<Rightarrow> 'k list" where
  "list_keys d = map fst d"

text \<open>
  The three imported tables: \<^verbatim>\<open>_MODEL_INFO\<close> of
  \<^verbatim>\<open>autogen_ext.models.anthropic._model_info\<close>, of \<^verbatim>\<open>...ollama._model_info\<close> and of
  \<^verbatim>\<open>...openai._model_info\<close>, imported as \<^verbatim>\<open>anthropic_models\<close>,
  \<^verbatim>\<open>ollama_models\<close> and \<^verbatim>\<open>openai_models\<close>. They are module-level dictionaries of
  another package, mutable like every \<^verbatim>\<open>dict\<close>, and the handler reads them anew at
  each call: they are fields of the process state. Their contents are not part of the
  two files, so any contents are admitted; \<open>'i\<close> is the type of a model's information
  entry. The record's extension stands for the rest of the process state.
\<close>

record 'i model_info =
  anthropic_models :: "(string, 'i) dict"
  ollama_models :: "(string, 'i) dict"
  openai_models :: "(string, 'i) dict"

text \<open>
  \<^verbatim>\<open>
  response = {
      "anthropic": list(anthropic_models.keys()),
      "ollama": list(ollama_models.keys()),
      "openAI": list(openai_models.keys()),
      "azureOpenAI": list(openai_models.keys()),
  }
  return response
  \<close>
  The handler has no \<^verbatim>\<open>await\<close>, no \<^verbatim>\<open>raise\<close> and no assignment to anything but
  its local \<^verbatim>\<open>response\<close>.
\<close>

definition list_models ::
  "((string, string list) dict, ('i, 'z) model_info_scheme) coroutine" where
  "list_models s =
     (let response =
        [(''anthropic'', list_keys (anthropic_models s)),
         (''ollama'', list_keys (ollama_models s)),
         (''openAI'', list_keys (openai_models s)),
         (''azureOpenAI'', list_keys (openai_models s))]
      in Some (Inr response, s))"

text \<open>
  The catalog as the specification words it, for comparison with \<open>list_models\<close>: four
  lookup tables, one per provider, each provider's value being the keys of its own
  table.
\<close>

definition catalog_of_four_tables ::
  "(string, 'i) dict \<Rightarrow> (string, 'i) dict \<Rightarrow> (string, 'i) dict \<Rightarrow> (string, 'i) dict \<Rightarrow>
     (string, string list) dict" where
  "catalog_of_four_tables anthropic_table ollama_table openai_table azure_openai_table =
     [(''anthropic'', list_keys anthropic_table),
      (''ollama'', list_keys ollama_table),
      (''openAI'', list_keys openai_table),
      (''azureOpenAI'', list_keys azure_openai_table)]"

section \<open>Properties of the invoke handler\<close>

text \<open>
  C1. For every request, if the delegated \<^verbatim>\<open>team_manager.run(task, team_config)\<close>
  call returns a result \<open>r\<close>, the handler returns the envelope with \<open>status = True\<close>,
  \<open>message\<close> exactly \<^verbatim>\<open>"Task successfully completed"\<close> and \<open>data = r\<close>.
\<close>

theorem invoke_success:
  assumes "team_manager_run (task request) (team_config request) s = Some (Inr r, s')"
  shows "invoke team_manager_run request s =
           Some (Inr \<lparr>message = ''Task successfully completed'', status = True, data = r\<rparr>, s')"
  using assms by (simp add: invoke_def)

theorem invoke_success_witness:
  "run_returns (Some ''Paris, 3 days'') ''plan a trip'' [(''participants'', 2::nat)] (0::nat)
     = Some (Inr (Some ''Paris, 3 days''), 0)
   \<and> invoke (run_returns (Some ''Paris, 3 days''))
         \<lparr>task = ''plan a trip'', team_config = [(''participants'', 2::nat)]\<rparr> (0::nat)
     = Some (Inr \<lparr>message = ''Task successfully completed'', status = True,
                  data = Some ''Paris, 3 days''\<rparr>, 0)"
  using invoke_success [of "run_returns (Some ''Paris, 3 days'')"
      "\<lparr>task = ''plan a trip'', team_config = [(''participants'', 2::nat)]\<rparr>" "0::nat"
      "Some ''Paris, 3 days''" 0]
  by (simp add: run_returns_def)

text \<open>
  C2 as stated, for every raised object \<open>e\<close>, fails twice over. When \<^verbatim>\<open>run\<close> raises
  \<^verbatim>\<open>KeyboardInterrupt\<close>, which is not an instance of \<^verbatim>\<open>Exception\<close>, the clause
  \<^verbatim>\<open>except Exception\<close> does not match and the soft-failure envelope is not returned.
  When \<^verbatim>\<open>run\<close> raises an instance of \<^verbatim>\<open>Exception\<close> whose \<^verbatim>\<open>__str__\<close> returns an
  \<^verbatim>\<open>int\<close>, the unguarded \<^verbatim>\<open>str(e)\<close> raises \<^verbatim>\<open>TypeError\<close> and the handler returns
  no envelope at all.
\<close>

theorem invoke_exception_counterexample:
  "invoke (run_raises (PyError KeyboardInterrupt (str_returns ''interrupted'')))
       \<lparr>task = ''plan a trip'', team_config = ()\<rparr> (0::nat)
     \<noteq> Some (Inr \<lparr>message = ''interrupted'', status = False, data = (None :: unit option)\<rparr>, 0)
   \<and> isinstance_Exception (PyError (Exception_subclass ''BadStr'')
         (str_raises (PyError (Exception_subclass ''TypeError'')
            (str_returns ''__str__ returned non-string (type int)''))) :: nat py_error)
   \<and> \<not> (\<exists>response s'. invoke (run_raises (PyError (Exception_subclass ''BadStr'')
         (str_raises (PyError (Exception_subclass ''TypeError'')
            (str_returns ''__str__ returned non-string (type int)'')))))
       \<lparr>task = ''plan a trip'', team_config = ()\<rparr> (0::nat)
     = Some (Inr (response :: unit Response), s'))"
  by (simp add: invoke_def run_raises_def isinstance_Exception_def str_raises_def)

text \<open>
  C2, amended. If the delegated call raises an object \<open>e\<close> that is an instance of
  \<^verbatim>\<open>Exception\<close> and the call \<^verbatim>\<open>str(e)\<close> returns the string \<open>m\<close>, the handler returns
  the envelope with \<open>status = False\<close>, \<open>message = m\<close> and \<open>data = None\<close>. The envelope
  holds nothing of \<open>e\<close> but that string, so among these exceptions no distinction of
  kind is kept.
\<close>

theorem invoke_Exception:
  assumes "team_manager_run (task request) (team_config request) s = Some (Inl e, s')"
    and "isinstance_Exception e"
    and "str e s' = Some (Inr m, s'')"
  shows "invoke team_manager_run request s =
           Some (Inr \<lparr>message = m, status = False, data = None\<rparr>, s'')"
  using assms by (simp add: invoke_def)

theorem invoke_Exception_witness:
  "isinstance_Exception
      (PyError (Exception_subclass ''ValueError'') (str_returns ''no such team'') :: nat py_error)
   \<and> str (PyError (Exception_subclass ''ValueError'') (str_returns ''no such team'')) (0::nat)
       = Some (Inr ''no such team'', 0)
   \<and> invoke (run_raises (PyError (Exception_subclass ''ValueError'') (str_returns ''no such team'')))
       \<lparr>task = ''plan a trip'', team_config = ()\<rparr> (0::nat)
     = Some (Inr \<lparr>message = ''no such team'', status = False,
                  data = (None :: unit option)\<rparr>, 0)"
  using invoke_Exception [of
      "run_raises (PyError (Exception_subclass ''ValueError'') (str_returns ''no such team''))"
      "\<lparr>task = ''plan a trip'', team_config = ()\<rparr>" "0::nat"
      "PyError (Exception_subclass ''ValueError'') (str_returns ''no such team'')" 0
      "''no such team''" 0]
  by (simp add: run_raises_def isinstance_Exception_def str_returns_def)

text \<open>
  C3 as stated, that the handler never raises, fails twice over. When the awaited call
  is cancelled, \<^verbatim>\<open>asyncio.CancelledError\<close> leaves the handler and no envelope is
  returned. When \<^verbatim>\<open>run\<close> raises an instance of \<^verbatim>\<open>Exception\<close> whose \<^verbatim>\<open>__str__\<close>
  raises \<^verbatim>\<open>RuntimeError\<close>, that error leaves the handler from inside the
  \<^verbatim>\<open>except\<close> block.
\<close>

theorem invoke_never_raises_counterexample:
  "invoke (run_raises (PyError CancelledError (str_returns '''')))
       \<lparr>task = ''plan a trip'', team_config = ()\<rparr> (0::nat)
     = (Some (Inl (PyError CancelledError (str_returns '''')), 0)
          :: ((nat py_error + unit Response) \<times> nat) option)
   \<and> isinstance_Exception (PyError (Exception_subclass ''AgentError'')
         (str_raises (PyError (Exception_subclass ''RuntimeError'')
            (str_returns ''no description''))) :: nat py_error)
   \<and> invoke (run_raises (PyError (Exception_subclass ''AgentError'')
         (str_raises (PyError (Exception_subclass ''RuntimeError'')
            (str_returns ''no description'')))))
       \<lparr>task = ''plan a trip'', team_config = ()\<rparr> (0::nat)
     = (Some (Inl (PyError (Exception_subclass ''RuntimeError'') (str_returns ''no description'')), 0)
          :: ((nat py_error + unit Response) \<times> nat) option)"
  by (simp add: invoke_def run_raises_def isinstance_Exception_def str_raises_def)

text \<open>
  C3, amended. Whenever the delegated call completes by returning a result, or by
  raising an instance of \<^verbatim>\<open>Exception\<close> whose \<^verbatim>\<open>str(e)\<close> returns a string, the
  handler itself does not raise and returns an envelope (success or soft failure): the
  failure of the delegated call is then not surfaced as a raised error or a non-200
  HTTP outcome from the handler. What the handler hands to the framework is the
  envelope by a plain \<^verbatim>\<open>return\<close>, under the route \<^verbatim>\<open>@router.post("/")\<close> that
  declares no status code of its own; the handler sets no status and raises no HTTP
  error, so its outcome \<open>Inr response\<close> is the route's ordinary response.
\<close>

theorem invoke_returns_envelope:
  assumes "team_manager_run (task request) (team_config request) s = Some (Inr r, s')
         \<or> (team_manager_run (task request) (team_config request) s = Some (Inl e, s')
              \<and> isinstance_Exception e \<and> str e s' = Some (Inr m, s''))"
  shows "(\<exists>response sf. invoke team_manager_run request s = Some (Inr response, sf))
       \<and> invoke team_manager_run request s \<noteq> None
       \<and> (\<forall>e' sf. invoke team_manager_run request s \<noteq> Some (Inl e', sf))"
  using assms by (auto simp add: invoke_def)

theorem invoke_returns_envelope_witness:
  "(\<exists>response. invoke (run_returns (Some ''Paris, 3 days''))
        \<lparr>task = ''plan a trip'', team_config = ()\<rparr> (0::nat) = Some (Inr response, 0))
   \<and> (\<exists>response. invoke
          (run_raises (PyError (Exception_subclass ''RuntimeError'') (str_returns ''model timed out'')))
        \<lparr>task = ''plan a trip'', team_config = ()\<rparr> (0::nat)
          = Some (Inr (response :: unit Response), 0))"
  using invoke_returns_envelope [where team_manager_run = "run_returns (Some ''Paris, 3 days'')"
      and request = "\<lparr>task = ''plan a trip'', team_config = ()\<rparr>" and s = "0::nat"
      and r = "Some ''Paris, 3 days''" and s' = 0]
    invoke_returns_envelope [where team_manager_run =
          "run_raises (PyError (Exception_subclass ''RuntimeError'') (str_returns ''model timed out''))"
      and request = "\<lparr>task = ''plan a trip'', team_config = ()\<rparr>" and s = "0::nat"
      and e = "PyError (Exception_subclass ''RuntimeError'') (str_returns ''model timed out'')"
      and s' = 0 and m = "''model timed out''" and s'' = 0]
  by (simp add: invoke_def run_returns_def run_raises_def isinstance_Exception_def
        str_returns_def)

text \<open>
  The handler has no timeout: while the awaited call does not complete, neither does
  the handler.
\<close>

lemma invoke_never_completes:
  assumes "team_manager_run (task request) (team_config request) s = None"
  shows "invoke team_manager_run request s = None"
  using assms by (simp add: invoke_def)

text \<open>
  What \<^verbatim>\<open>str(e)\<close> raises inside the \<^verbatim>\<open>except\<close> block leaves the handler.
\<close>

lemma invoke_str_raises:
  assumes "team_manager_run (task request) (team_config request) s = Some (Inl e, s')"
    and "isinstance_Exception e"
    and "str e s' = Some (Inl e', s'')"
  shows "invoke team_manager_run request s = Some (Inl e', s'')"
  using assms by (simp add: invoke_def)

text \<open>
  C9. Every envelope the handler returns satisfies: if \<open>status\<close> is true then
  \<open>message\<close> is exactly \<^verbatim>\<open>"Task successfully completed"\<close>, and if \<open>status\<close> is false
  then \<open>data\<close> is \<open>None\<close>.
\<close>

theorem invoke_envelope_invariant:
  assumes "invoke team_manager_run request s = Some (Inr response, s')"
  shows "(status response \<longrightarrow> message response = ''Task successfully completed'')
       \<and> (\<not> status response \<longrightarrow> data response = None)"
  using assms
  by (auto simp add: invoke_def Let_def split: option.splits sum.splits prod.splits if_splits)

theorem invoke_envelope_invariant_witness:
  "invoke (run_raises (PyError (Exception_subclass ''KeyError'') (str_returns ''team'')))
       \<lparr>task = ''plan a trip'', team_config = ()\<rparr> (0::nat)
     = Some (Inr \<lparr>message = ''team'', status = False, data = (None :: unit option)\<rparr>, 0)
   \<and> \<not> status \<lparr>message = ''team'', status = False, data = (None :: unit option)\<rparr>
   \<and> data \<lparr>message = ''team'', status = False, data = (None :: unit option)\<rparr> = None
   \<and> invoke (run_returns (Some ''Paris, 3 days''))
       \<lparr>task = ''plan a trip'', team_config = ()\<rparr> (0::nat)
     = Some (Inr \<lparr>message = ''Task successfully completed'', status = True,
                  data = Some ''Paris, 3 days''\<rparr>, 0)
   \<and> status \<lparr>message = ''Task successfully completed'', status = True,
                  data = Some ''Paris, 3 days''\<rparr>
   \<and> message \<lparr>message = ''Task successfully completed'', status = True,
                  data = Some ''Paris, 3 days''\<rparr> = ''Task successfully completed''"
proof -
  have f: "invoke (run_raises (PyError (Exception_subclass ''KeyError'') (str_returns ''team'')))
       \<lparr>task = ''plan a trip'', team_config = ()\<rparr> (0::nat)
     = Some (Inr \<lparr>message = ''team'', status = False, data = (None :: unit option)\<rparr>, 0)"
    by (simp add: invoke_def run_raises_def isinstance_Exception_def str_returns_def)
  have g: "invoke (run_returns (Some ''Paris, 3 days''))
       \<lparr>task = ''plan a trip'', team_config = ()\<rparr> (0::nat)
     = Some (Inr \<lparr>message = ''Task successfully completed'', status = True,
                  data = Some ''Paris, 3 days''\<rparr>, 0)"
    by (simp add: invoke_def run_returns_def)
  from invoke_envelope_invariant [OF f] invoke_envelope_invariant [OF g] f g
  show ?thesis by simp
qed

text \<open>
  C10. The handler's \<^verbatim>\<open>except\<close> clause covers the class \<^verbatim>\<open>Exception\<close> only: if
  the delegated call raises an object that is not an instance of \<^verbatim>\<open>Exception\<close> (a
  cancellation, for one), that object leaves the handler uncaught and no envelope is
  returned.
\<close>

theorem invoke_BaseException_propagates:
  assumes "team_manager_run (task request) (team_config request) s = Some (Inl e, s')"
    and "\<not> isinstance_Exception e"
  shows "invoke team_manager_run request s = Some (Inl e, s')"
  using assms by (simp add: invoke_def)

theorem invoke_BaseException_propagates_witness:
  "\<not> isinstance_Exception (PyError CancelledError (str_returns '''') :: nat py_error)
   \<and> invoke (run_raises (PyError CancelledError (str_returns '''')))
       \<lparr>task = ''plan a trip'', team_config = [(''participants'', 2::nat)]\<rparr> (0::nat)
     = (Some (Inl (PyError CancelledError (str_returns '''')), 0)
          :: ((nat py_error + unit Response) \<times> nat) option)"
  using invoke_BaseException_propagates [of "run_raises (PyError CancelledError (str_returns ''''))"
      "\<lparr>task = ''plan a trip'', team_config = [(''participants'', 2::nat)]\<rparr>" "0::nat"
      "PyError CancelledError (str_returns '''')" 0]
  by (simp add: run_raises_def isinstance_Exception_def)

section \<open>Properties of the model-list handler\<close>

text \<open>
  C4. Every call returns a mapping whose keys are exactly \<^verbatim>\<open>anthropic\<close>,
  \<^verbatim>\<open>ollama\<close>, \<^verbatim>\<open>openAI\<close> and \<^verbatim>\<open>azureOpenAI\<close>, each once, and each mapped to a list
  of strings (by the type of \<open>response\<close>).
\<close>

theorem list_models_keys:
  "\<exists>response :: (string, string list) dict.
     list_models s = Some (Inr response, s)
     \<and> map fst response = [''anthropic'', ''ollama'', ''openAI'', ''azureOpenAI'']
     \<and> distinct (map fst response)
     \<and> dom (map_of response) = {''anthropic'', ''ollama'', ''openAI'', ''azureOpenAI''}"
  by (auto simp add: list_models_def dom_def)

text \<open>
  C5. In every returned mapping the value under \<^verbatim>\<open>openAI\<close> and the value under
  \<^verbatim>\<open>azureOpenAI\<close> are the same list, the keys of the one table
  \<^verbatim>\<open>openai_models\<close>.
\<close>

theorem list_models_openAI_azureOpenAI:
  "\<exists>response ids. list_models s = Some (Inr response, s)
     \<and> map_of response ''openAI'' = Some ids
     \<and> map_of response ''azureOpenAI'' = Some ids
     \<and> ids = list_keys (openai_models s)"
  by (simp add: list_models_def)

text \<open>
  C6 as stated, that two calls in any states return equal mappings, fails: the handler
  reads the module-level tables at each call, so a call made while the OpenAI table
  holds \<^verbatim>\<open>gpt-4o\<close> and a call made while it is empty return different mappings.
\<close>

theorem list_models_any_states_counterexample:
  "list_models \<lparr>anthropic_models = [], ollama_models = [], openai_models = [(''gpt-4o'', ())]\<rparr>
     = Some (Inr [(''anthropic'', []), (''ollama'', []), (''openAI'', [''gpt-4o'']),
                  (''azureOpenAI'', [''gpt-4o''])],
             \<lparr>anthropic_models = [], ollama_models = [], openai_models = [(''gpt-4o'', ())]\<rparr>)
   \<and> list_models
       \<lparr>anthropic_models = [], ollama_models = [], openai_models = ([] :: (string, unit) dict)\<rparr>
     = Some (Inr [(''anthropic'', []), (''ollama'', []), (''openAI'', []), (''azureOpenAI'', [])],
             \<lparr>anthropic_models = [], ollama_models = [], openai_models = []\<rparr>)
   \<and> [(''anthropic'', []), (''ollama'', []), (''openAI'', [''gpt-4o'']),
        (''azureOpenAI'', [''gpt-4o''])]
     \<noteq> [(''anthropic'', []), (''ollama'', []), (''openAI'', []),
        (''azureOpenAI'', ([] :: string list))]"
  by (simp add: list_models_def list_keys_def)

text \<open>
  C6, amended. The handler is without side effects, and deterministic in the three
  imported tables: two calls made in states \<open>s1\<close> and \<open>s2\<close> that hold the same three
  tables return the same mapping, whatever else differs between the states, and each
  call leaves its state, the tables included, as it found it.
\<close>

theorem list_models_pure:
  assumes "anthropic_models s1 = anthropic_models s2"
    and "ollama_models s1 = ollama_models s2"
    and "openai_models s1 = openai_models s2"
  shows "\<exists>response. list_models s1 = Some (Inr response, s1)
           \<and> list_models s2 = Some (Inr response, s2)"
  using assms by (simp add: list_models_def)

theorem list_models_pure_witness:
  "\<exists>response.
     list_models \<lparr>anthropic_models = [(''claude-3-5-sonnet'', ())], ollama_models = [],
        openai_models = [(''gpt-4o'', ()), (''o1'', ())], \<dots> = (0::nat)\<rparr>
       = Some (Inr response, \<lparr>anthropic_models = [(''claude-3-5-sonnet'', ())], ollama_models = [],
        openai_models = [(''gpt-4o'', ()), (''o1'', ())], \<dots> = (0::nat)\<rparr>)
   \<and> list_models \<lparr>anthropic_models = [(''claude-3-5-sonnet'', ())], ollama_models = [],
        openai_models = [(''gpt-4o'', ()), (''o1'', ())], \<dots> = (1::nat)\<rparr>
       = Some (Inr response, \<lparr>anthropic_models = [(''claude-3-5-sonnet'', ())], ollama_models = [],
        openai_models = [(''gpt-4o'', ()), (''o1'', ())], \<dots> = (1::nat)\<rparr>)"
  using list_models_pure [of
      "\<lparr>anthropic_models = [(''claude-3-5-sonnet'', ())], ollama_models = [],
        openai_models = [(''gpt-4o'', ()), (''o1'', ())], \<dots> = (0::nat)\<rparr>"
      "\<lparr>anthropic_models = [(''claude-3-5-sonnet'', ())], ollama_models = [],
        openai_models = [(''gpt-4o'', ()), (''o1'', ())], \<dots> = (1::nat)\<rparr>"]
  by simp

text \<open>
  C7. The handler never fails: in every state it completes and returns a mapping, and
  it raises nothing.
\<close>

theorem list_models_never_fails:
  "(\<exists>response s'. list_models s = Some (Inr response, s'))
     \<and> list_models s \<noteq> None
     \<and> (\<forall>e s'. list_models s \<noteq> Some (Inl e, s'))"
  by (simp add: list_models_def)

text \<open>
  C8 as stated, with four lookup tables and each provider's value taken from its own
  table, fails: the handler reads three tables, and a table of Azure-OpenAI's own,
  here an empty one, has no part in the value under \<^verbatim>\<open>azureOpenAI\<close>.
\<close>

theorem list_models_four_tables_counterexample:
  "list_models \<lparr>anthropic_models = [], ollama_models = [],
        openai_models = [(''gpt-4o'', ())]\<rparr>
     \<noteq> Some (Inr (catalog_of_four_tables [] [] [(''gpt-4o'', ())] []),
             \<lparr>anthropic_models = [], ollama_models = [],
        openai_models = [(''gpt-4o'', ())]\<rparr>)"
  by (simp add: list_models_def catalog_of_four_tables_def list_keys_def)

text \<open>
  C8, amended. The catalog is sourced from three lookup tables: the values under
  \<^verbatim>\<open>anthropic\<close> and \<^verbatim>\<open>ollama\<close> are the keys of the provider's own table, in the
  table's order, and the values under \<^verbatim>\<open>openAI\<close> and \<^verbatim>\<open>azureOpenAI\<close> are both the
  keys of the OpenAI table, in that table's order. It is the four-table catalog with
  the OpenAI table in Azure-OpenAI's place.
\<close>

theorem list_models_three_tables:
  "\<exists>response. list_models s = Some (Inr response, s)
     \<and> map_of response ''anthropic'' = Some (map fst (anthropic_models s))
     \<and> map_of response ''ollama'' = Some (map fst (ollama_models s))
     \<and> map_of response ''openAI'' = Some (map fst (openai_models s))
     \<and> map_of response ''azureOpenAI'' = Some (map fst (openai_models s))
     \<and> response = catalog_of_four_tables (anthropic_models s) (ollama_models s)
          (openai_models s) (openai_models s)"
  by (simp add: list_models_def catalog_of_four_tables_def list_keys_def)

end
